theory Spec2Isabelle
  imports Complex_Main
begin

section \<open>Data model (App.tsx)\<close>

text \<open>
  JavaScript numbers are modelled as \<^typ>\<open>real\<close>: the arithmetic of the source is read as
  exact arithmetic, IEEE rounding is not part of the model. Strings are \<^typ>\<open>string\<close>, a
  character standing for a code unit below 256.
\<close>

datatype WatermarkMode = Single | Repeating

datatype WatermarkPosition =
    TopLeft | TopCenter | TopRight
  | MiddleLeft | MiddleCenter | MiddleRight
  | BottomLeft | BottomCenter | BottomRight

record WatermarkOptions =
  wtext :: string
  fontSize :: real
  color :: string
  opacity :: real
  angle :: real
  mode :: WatermarkMode
  position :: WatermarkPosition
  rowSpacing :: real
  colSpacing :: real

text \<open>The string literal behind each value of the union type \<open>WatermarkPosition\<close>.\<close>

fun positionName :: "WatermarkPosition \<Rightarrow> string" where
  "positionName TopLeft = ''top-left''"
| "positionName TopCenter = ''top-center''"
| "positionName TopRight = ''top-right''"
| "positionName MiddleLeft = ''middle-left''"
| "positionName MiddleCenter = ''middle-center''"
| "positionName MiddleRight = ''middle-right''"
| "positionName BottomLeft = ''bottom-left''"
| "positionName BottomCenter = ''bottom-center''"
| "positionName BottomRight = ''bottom-right''"

section \<open>Colour conversion: \<open>hexToRgba\<close>\<close>

text \<open>
  The three raster components carry the same helper, character for character
  (PreviewWindow.tsx 19-24, SettingsPanel.tsx 9-14, Thumbnail.tsx 15-18):
  \<^verbatim>\<open>/^#?([a-f\d]{2})([a-f\d]{2})([a-f\d]{2})$/i.exec(hex)\<close>.
  The class \<open>[a-f\d]\<close> under the flag \<open>i\<close> accepts the digits and the letters a-f in either
  case.
\<close>

definition isHexDigit :: "char \<Rightarrow> bool" where
  "isHexDigit c = (c \<in> set ''0123456789abcdefABCDEF'')"

text \<open>One capture group \<open>([a-f\d]{2})\<close>: the two characters captured and the rest.\<close>

fun hexPair :: "string \<Rightarrow> (string \<times> string) option" where
  "hexPair (a # b # rest) = (if isHexDigit a \<and> isHexDigit b then Some ([a, b], rest) else None)"
| "hexPair _ = None"

text \<open>The three groups followed by the end-of-input anchor.\<close>

definition hexGroups :: "string \<Rightarrow> (string \<times> string \<times> string) option" where
  "hexGroups s =
     (case hexPair s of
        None \<Rightarrow> None
      | Some (g1, s1) \<Rightarrow>
         (case hexPair s1 of
            None \<Rightarrow> None
          | Some (g2, s2) \<Rightarrow>
             (case hexPair s2 of
                None \<Rightarrow> None
              | Some (g3, s3) \<Rightarrow> if s3 = [] then Some (g1, g2, g3) else None)))"

text \<open>The optional \<open>#\<close> is greedy: it is consumed first, and given back when the rest fails.\<close>

definition hexRegexExec :: "string \<Rightarrow> (string \<times> string \<times> string) option" where
  "hexRegexExec hex =
     (case hex of
        [] \<Rightarrow> hexGroups []
      | c # rest \<Rightarrow>
          if c = CHR ''#''
          then (case hexGroups rest of Some g \<Rightarrow> Some g | None \<Rightarrow> hexGroups hex)
          else hexGroups hex)"

definition hexValue :: "char \<Rightarrow> nat" where
  "hexValue c =
     (let n = (of_char c :: nat) in
      if 48 \<le> n \<and> n \<le> 57 then n - 48
      else if 97 \<le> n \<and> n \<le> 102 then n - 87
      else n - 55)"

text \<open>\<open>parseInt(s, 16)\<close> on a string of hexadecimal digits.\<close>

definition parseIntHex :: "string \<Rightarrow> nat" where
  "parseIntHex s = foldl (\<lambda>acc c. 16 * acc + hexValue c) 0 s"

definition digitChar :: "nat \<Rightarrow> char" where
  "digitChar d = ''0123456789'' ! d"

text \<open>The decimal text of a non-negative integer, as a template literal prints it.\<close>

function showNat :: "nat \<Rightarrow> string" where
  "showNat n = (if n < 10 then [digitChar n] else showNat (n div 10) @ [digitChar (n mod 10)])"
  by pat_completeness auto
termination
  by (relation "measure id") auto

declare showNat.simps [simp del]

text \<open>
  \<open>numToString\<close> stands for the conversion of a JavaScript number to text inside a template
  literal; it belongs to the language runtime and is taken as a parameter.
\<close>

definition hexToRgba :: "(real \<Rightarrow> string) \<Rightarrow> string \<Rightarrow> real \<Rightarrow> string" where
  "hexToRgba numToString hex opac =
     (case hexRegexExec hex of
        Some (r1, r2, r3) \<Rightarrow>
          ''rgba('' @ showNat (parseIntHex r1) @ '', '' @ showNat (parseIntHex r2) @ '', ''
            @ showNat (parseIntHex r3) @ '', '' @ numToString opac @ '')''
      | None \<Rightarrow> ''rgba(0, 0, 0, '' @ numToString opac @ '')'')"

text \<open>
  The form the colour string is expected to have, in words: six hexadecimal digits, with an
  optional leading \<open>#\<close>.
\<close>

definition sixHexDigits :: "string \<Rightarrow> bool" where
  "sixHexDigits ds = (length ds = 6 \<and> list_all isHexDigit ds)"

definition sixHexForm :: "string \<Rightarrow> bool" where
  "sixHexForm hex = (sixHexDigits hex \<or> (\<exists>ds. hex = CHR ''#'' # ds \<and> sixHexDigits ds))"

section \<open>Anchor resolution\<close>

datatype CanvasTextAlign = AlignLeft | AlignCenter | AlignRight

datatype CanvasTextBaseline = BaselineTop | BaselineMiddle | BaselineBottom

record Placement =
  px :: real
  py :: real
  textAlign :: CanvasTextAlign
  textBaseline :: CanvasTextBaseline

text \<open>
  The table \<open>positions\<close> of \<open>getWatermarkPosition\<close> (PreviewWindow.tsx 32-42,
  SettingsPanel.tsx 22-32, Thumbnail.tsx 26-36: the same nine entries).
\<close>

definition positions :: "real \<Rightarrow> real \<Rightarrow> real \<Rightarrow> (WatermarkPosition \<times> Placement) list" where
  "positions canvasWidth canvasHeight margin =
     [(TopLeft, \<lparr>px = margin, py = margin, textAlign = AlignLeft, textBaseline = BaselineTop\<rparr>),
      (TopCenter, \<lparr>px = canvasWidth / 2, py = margin, textAlign = AlignCenter, textBaseline = BaselineTop\<rparr>),
      (TopRight, \<lparr>px = canvasWidth - margin, py = margin, textAlign = AlignRight, textBaseline = BaselineTop\<rparr>),
      (MiddleLeft, \<lparr>px = margin, py = canvasHeight / 2, textAlign = AlignLeft, textBaseline = BaselineMiddle\<rparr>),
      (MiddleCenter, \<lparr>px = canvasWidth / 2, py = canvasHeight / 2, textAlign = AlignCenter, textBaseline = BaselineMiddle\<rparr>),
      (MiddleRight, \<lparr>px = canvasWidth - margin, py = canvasHeight / 2, textAlign = AlignRight, textBaseline = BaselineMiddle\<rparr>),
      (BottomLeft, \<lparr>px = margin, py = canvasHeight - margin, textAlign = AlignLeft, textBaseline = BaselineBottom\<rparr>),
      (BottomCenter, \<lparr>px = canvasWidth / 2, py = canvasHeight - margin, textAlign = AlignCenter, textBaseline = BaselineBottom\<rparr>),
      (BottomRight, \<lparr>px = canvasWidth - margin, py = canvasHeight - margin, textAlign = AlignRight, textBaseline = BaselineBottom\<rparr>)]"

text \<open>\<open>positions[position] || positions['middle-center']\<close>\<close>

definition getWatermarkPosition :: "WatermarkPosition \<Rightarrow> real \<Rightarrow> real \<Rightarrow> real \<Rightarrow> Placement" where
  "getWatermarkPosition pos canvasWidth canvasHeight margin =
     (case map_of (positions canvasWidth canvasHeight margin) pos of
        Some p \<Rightarrow> p
      | None \<Rightarrow> \<lparr>px = canvasWidth / 2, py = canvasHeight / 2,
                 textAlign = AlignCenter, textBaseline = BaselineMiddle\<rparr>)"

text \<open>\<open>getWatermarkPositionPdf\<close> (SettingsPanel.tsx 36-54): coordinates only.\<close>

definition positionsPdf :: "real \<Rightarrow> real \<Rightarrow> real \<Rightarrow> (WatermarkPosition \<times> real \<times> real) list" where
  "positionsPdf pageWidth pageHeight margin =
     [(TopLeft, (margin, pageHeight - margin)),
      (TopCenter, (pageWidth / 2, pageHeight - margin)),
      (TopRight, (pageWidth - margin, pageHeight - margin)),
      (MiddleLeft, (margin, pageHeight / 2)),
      (MiddleCenter, (pageWidth / 2, pageHeight / 2)),
      (MiddleRight, (pageWidth - margin, pageHeight / 2)),
      (BottomLeft, (margin, margin)),
      (BottomCenter, (pageWidth / 2, margin)),
      (BottomRight, (pageWidth - margin, margin))]"

definition getWatermarkPositionPdf :: "WatermarkPosition \<Rightarrow> real \<Rightarrow> real \<Rightarrow> real \<Rightarrow> real \<times> real" where
  "getWatermarkPositionPdf pos pageWidth pageHeight margin =
     (case map_of (positionsPdf pageWidth pageHeight margin) pos of
        Some p \<Rightarrow> p
      | None \<Rightarrow> (pageWidth / 2, pageHeight / 2))"

section \<open>Canvas drawing\<close>

text \<open>
  The 2D context is modelled by the sequence of calls made on it; a drawing function takes
  the calls made so far and returns them extended. \<open>SetFont s\<close> stands for
  \<open>ctx.font = `${s}px Arial`\<close>.
\<close>

datatype canvas_op =
    SetFillStyle string
  | SetFont real
  | SetTextAlign CanvasTextAlign
  | SetTextBaseline CanvasTextBaseline
  | Save
  | Restore
  | Translate real real
  | Rotate real
  | FillText string real real

text \<open>
  \<open>for (let i = start; i < limit; i += step) body(i)\<close> over a state. The loop need not
  end (a step that is not positive never reaches the limit), so the result is an option and
  \<open>None\<close> is a loop that does not return.
  The counter is a real number here and a double in the source: there a positive step
  below half the spacing of the doubles around the counter leaves it unchanged, so the
  statements below that a render returns are made for strides of at least 1 only.
\<close>

partial_function (option) for_loop ::
  "real \<Rightarrow> real \<Rightarrow> (real \<Rightarrow> 's \<Rightarrow> 's option) \<Rightarrow> real \<Rightarrow> 's \<Rightarrow> 's option" where
  "for_loop limit step body i s =
     (if i < limit then Option.bind (body i s) (for_loop limit step body (i + step)) else Some s)"

text \<open>The rotated bounding box of one instance (\<open>absCos\<close>, \<open>absSin\<close>, \<open>boxWidth\<close>, \<open>boxHeight\<close>).\<close>

definition boxWidth :: "real \<Rightarrow> real \<Rightarrow> real \<Rightarrow> real" where
  "boxWidth textWidth textHeight rad =
     (let absCos = \<bar>cos rad\<bar>; absSin = \<bar>sin rad\<bar> in textWidth * absCos + textHeight * absSin)"

definition boxHeight :: "real \<Rightarrow> real \<Rightarrow> real \<Rightarrow> real" where
  "boxHeight textWidth textHeight rad =
     (let absCos = \<bar>cos rad\<bar>; absSin = \<bar>sin rad\<bar> in textWidth * absSin + textHeight * absCos)"

text \<open>
  The single-mode branch, the same in the three components: anchor, alignment, then a
  rotation local to the instance.
\<close>

definition drawSingle :: "canvas_op list \<Rightarrow> string \<Rightarrow> real \<Rightarrow> Placement \<Rightarrow> canvas_op list" where
  "drawSingle ctx txt ang pos =
     ctx @ [SetTextAlign (textAlign pos), SetTextBaseline (textBaseline pos),
            Save, Translate (px pos) (py pos), Rotate (- ang * pi / 180), FillText txt 0 0, Restore]"

text \<open>
  The whole-frame tiling loop (SettingsPanel.tsx 169-178, Thumbnail.tsx 81-90): one rotation
  about the centre of the canvas, then the grid.
\<close>

definition tileFrame ::
  "canvas_op list \<Rightarrow> string \<Rightarrow> real \<Rightarrow> real \<Rightarrow> real \<Rightarrow> real \<Rightarrow> real \<Rightarrow> canvas_op list option" where
  "tileFrame ctx txt canvasWidth canvasHeight rad hSpacing vSpacing =
     (let ctx1 = ctx @ [Translate (canvasWidth / 2) (canvasHeight / 2), Rotate rad,
                        Translate (- canvasWidth / 2) (- canvasHeight / 2)]
      in Option.bind
           (for_loop (canvasHeight * 2) vSpacing
              (\<lambda>y c. for_loop (canvasWidth * 2) hSpacing
                 (\<lambda>x c'. Some (c' @ [FillText txt (x - canvasWidth) (y - canvasHeight)])) 0 c)
              0 ctx1)
           (\<lambda>c. Some (c @ [Restore])))"

text \<open>
  \<open>measureText f t\<close> stands for \<open>ctx.measureText(t).width\<close> under the font of size \<open>f\<close>; it
  belongs to the browser and is a parameter.
\<close>

text \<open>The strides of the export path (SettingsPanel.tsx 156-167).\<close>

definition canvasStrides :: "(real \<Rightarrow> string \<Rightarrow> real) \<Rightarrow> WatermarkOptions \<Rightarrow> real \<times> real" where
  "canvasStrides measureText customOptions =
     (let textWidth = measureText (fontSize customOptions) (wtext customOptions);
          textHeight = fontSize customOptions;
          rad = - angle customOptions * pi / 180;
          hSpacing = boxWidth textWidth textHeight rad + colSpacing customOptions;
          vSpacing = boxHeight textWidth textHeight rad + rowSpacing customOptions
      in (hSpacing, vSpacing))"

text \<open>\<open>drawWatermarkOnCanvas\<close> (SettingsPanel.tsx 135-180).\<close>

definition drawWatermarkOnCanvas ::
  "(real \<Rightarrow> string) \<Rightarrow> (real \<Rightarrow> string \<Rightarrow> real) \<Rightarrow> canvas_op list \<Rightarrow> real \<Rightarrow> real \<Rightarrow>
   WatermarkOptions \<Rightarrow> canvas_op list option" where
  "drawWatermarkOnCanvas numToString measureText ctx canvasWidth canvasHeight customOptions =
     (let ctx1 = ctx @ [SetFillStyle (hexToRgba numToString (color customOptions) (opacity customOptions)),
                        SetFont (fontSize customOptions)]
      in if mode customOptions = Single
         then Some (drawSingle ctx1 (wtext customOptions) (angle customOptions)
                      (getWatermarkPosition (position customOptions) canvasWidth canvasHeight
                         (fontSize customOptions)))
         else
           (let ctx2 = ctx1 @ [Save, SetTextAlign AlignCenter, SetTextBaseline BaselineMiddle];
                rad = - angle customOptions * pi / 180;
                (hSpacing, vSpacing) = canvasStrides measureText customOptions
            in tileFrame ctx2 (wtext customOptions) canvasWidth canvasHeight rad hSpacing vSpacing))"

text \<open>
  The thumbnail scales the options down before use (Thumbnail.tsx 44-48); the text drawn is
  an argument of its own.
\<close>

definition thumbnailOptions :: "WatermarkOptions \<Rightarrow> string \<Rightarrow> WatermarkOptions" where
  "thumbnailOptions options txt =
     (let scaleFactor = 1 / 4 in
      options\<lparr>wtext := txt,
              fontSize := max 8 (fontSize options * scaleFactor),
              rowSpacing := rowSpacing options * scaleFactor,
              colSpacing := colSpacing options * scaleFactor\<rparr>)"

text \<open>The strides of the thumbnail (Thumbnail.tsx 68-79), on the scaled options.\<close>

definition thumbnailStrides ::
  "(real \<Rightarrow> string \<Rightarrow> real) \<Rightarrow> WatermarkOptions \<Rightarrow> string \<Rightarrow> real \<times> real" where
  "thumbnailStrides measureText options txt =
     (let scaled = thumbnailOptions options txt;
          textWidth = measureText (fontSize scaled) txt;
          textHeight = fontSize scaled;
          rad = - angle options * pi / 180;
          hSpacing = boxWidth textWidth textHeight rad + colSpacing scaled;
          vSpacing = boxHeight textWidth textHeight rad + rowSpacing scaled
      in (hSpacing, vSpacing))"

text \<open>\<open>drawWatermarkToCanvas\<close> (Thumbnail.tsx 40-92).\<close>

definition drawWatermarkToCanvas ::
  "(real \<Rightarrow> string) \<Rightarrow> (real \<Rightarrow> string \<Rightarrow> real) \<Rightarrow> canvas_op list \<Rightarrow> real \<Rightarrow> real \<Rightarrow>
   WatermarkOptions \<Rightarrow> string \<Rightarrow> canvas_op list option" where
  "drawWatermarkToCanvas numToString measureText ctx width height options txt =
     (let scaled = thumbnailOptions options txt;
          ctx1 = ctx @ [SetFillStyle (hexToRgba numToString (color options) (opacity options)),
                        SetFont (fontSize scaled)]
      in if mode options = Single
         then Some (drawSingle ctx1 txt (angle options)
                      (getWatermarkPosition (position options) width height (fontSize scaled)))
         else
           (let ctx2 = ctx1 @ [Save, SetTextAlign AlignCenter, SetTextBaseline BaselineMiddle];
                rad = - angle options * pi / 180;
                (hSpacing, vSpacing) = thumbnailStrides measureText options txt
            in tileFrame ctx2 txt width height rad hSpacing vSpacing))"

text \<open>The strides of the detail preview (PreviewWindow.tsx 68-73): the unrotated text size.\<close>

definition previewStrides :: "(real \<Rightarrow> string \<Rightarrow> real) \<Rightarrow> WatermarkOptions \<Rightarrow> real \<times> real" where
  "previewStrides measureText options =
     (let textWidth = measureText (fontSize options) (wtext options);
          textHeight = fontSize options;
          hSpacing = textWidth + colSpacing options;
          vSpacing = textHeight + rowSpacing options
      in (hSpacing, vSpacing))"

text \<open>\<open>drawWatermark\<close> (PreviewWindow.tsx 46-88).\<close>

definition drawWatermark ::
  "(real \<Rightarrow> string) \<Rightarrow> (real \<Rightarrow> string \<Rightarrow> real) \<Rightarrow> canvas_op list \<Rightarrow> real \<Rightarrow> real \<Rightarrow>
   WatermarkOptions \<Rightarrow> canvas_op list option" where
  "drawWatermark numToString measureText ctx width height options =
     (let ctx1 = ctx @ [SetFillStyle (hexToRgba numToString (color options) (opacity options)),
                        SetFont (fontSize options)]
      in if mode options = Single
         then Some (drawSingle ctx1 (wtext options) (angle options)
                      (getWatermarkPosition (position options) width height (fontSize options)))
         else
           (let ctx2 = ctx1 @ [Save, SetTextAlign AlignCenter, SetTextBaseline BaselineMiddle];
                (hSpacing, vSpacing) = previewStrides measureText options;
                rad = - angle options * pi / 180
            in Option.bind
                 (for_loop (height + vSpacing) vSpacing
                    (\<lambda>y c. for_loop (width + hSpacing) hSpacing
                       (\<lambda>x c'. Some (c' @ [Save, Translate x y, Rotate rad,
                                           FillText (wtext options) 0 0, Restore])) 0 c)
                    0 ctx2)
                 (\<lambda>c. Some (c @ [Restore]))))"

section \<open>PDF export (SettingsPanel.tsx, \<open>applyWatermarkToPdf\<close>)\<close>

text \<open>One \<open>page.drawText\<close> instruction, with the options it is given.\<close>

record DrawTextOp =
  dt_text :: string
  dt_x :: real
  dt_y :: real
  dt_size :: real
  dt_color :: "real \<times> real \<times> real"
  dt_opacity :: real
  dt_rotate :: real

record PdfPage =
  pg_width :: real
  pg_height :: real
  pg_ops :: "DrawTextOp list"

fun startsWith :: "string \<Rightarrow> string \<Rightarrow> bool" where
  "startsWith s [] = True"
| "startsWith [] (c # cs) = False"
| "startsWith (a # s) (c # cs) = (a = c \<and> startsWith s cs)"

text \<open>\<open>String.prototype.includes\<close>\<close>

fun str_includes :: "string \<Rightarrow> string \<Rightarrow> bool" where
  "str_includes [] sub = (sub = [])"
| "str_includes (a # s) sub = (startsWith (a # s) sub \<or> str_includes s sub)"

text \<open>
  Lines 221-224. \<open>parseInt16\<close> stands for \<open>parseInt(_, 16)\<close> of the language runtime and
  is a parameter.
\<close>

definition pdfColor :: "(string \<Rightarrow> real) \<Rightarrow> string \<Rightarrow> real \<times> real \<times> real" where
  "pdfColor parseInt16 col =
     (let hex = drop 1 col;
          r = parseInt16 (take 2 hex) / 255;
          g = parseInt16 (take 2 (drop 2 hex)) / 255;
          b = parseInt16 (take 2 (drop 4 hex)) / 255
      in (r, g, b))"

text \<open>
  Lines 231-237: the horizontal coordinate handed to \<open>drawText\<close> in single mode.
  \<open>widthOfTextAtSize\<close> is the measurement of the embedded Helvetica font, a parameter.
\<close>

definition pdfSingleX :: "(string \<Rightarrow> real \<Rightarrow> real) \<Rightarrow> WatermarkOptions \<Rightarrow> real \<Rightarrow> real \<Rightarrow> real" where
  "pdfSingleX widthOfTextAtSize options width height =
     (let scaledFontSize = fontSize options * (width / 1000);
          pos = getWatermarkPositionPdf (position options) width height scaledFontSize;
          textWidth = widthOfTextAtSize (wtext options) scaledFontSize;
          x = fst pos
      in if str_includes (positionName (position options)) ''right'' then x - textWidth / 2
         else if str_includes (positionName (position options)) ''center'' then x - textWidth / 2
         else x + textWidth / 2)"

text \<open>Lines 249-259: the strides of the repeating page export.\<close>

definition pdfStrides :: "(string \<Rightarrow> real \<Rightarrow> real) \<Rightarrow> WatermarkOptions \<Rightarrow> real \<Rightarrow> real \<times> real" where
  "pdfStrides widthOfTextAtSize options width =
     (let scaledFontSize = fontSize options * (width / 1000);
          textWidth = widthOfTextAtSize (wtext options) scaledFontSize;
          textHeight = scaledFontSize;
          rad = angle options * pi / 180;
          hSpacing = boxWidth textWidth textHeight rad + colSpacing options;
          vSpacing = boxHeight textWidth textHeight rad + rowSpacing options
      in (hSpacing, vSpacing))"

text \<open>
  The body of the loop over the pages (lines 227-273). The colour is taken to be one that
  \<open>rgb\<close> accepts: \<open>parseInt16\<close> returns a number, where the runtime yields \<open>NaN\<close> for a string
  without hexadecimal digits and \<open>rgb\<close> then raises.
\<close>

definition watermarkPage ::
  "(string \<Rightarrow> real \<Rightarrow> real) \<Rightarrow> (string \<Rightarrow> real) \<Rightarrow> WatermarkOptions \<Rightarrow> PdfPage \<Rightarrow> PdfPage option" where
  "watermarkPage widthOfTextAtSize parseInt16 options page =
     (let width = pg_width page; height = pg_height page;
          scaledFontSize = fontSize options * (width / 1000);
          instr = (\<lambda>x y. \<lparr>dt_text = wtext options, dt_x = x, dt_y = y, dt_size = scaledFontSize,
                          dt_color = pdfColor parseInt16 (color options),
                          dt_opacity = opacity options, dt_rotate = angle options\<rparr>)
      in if mode options = Single
         then
           (let pos = getWatermarkPositionPdf (position options) width height scaledFontSize;
                x = pdfSingleX widthOfTextAtSize options width height
            in Some (page\<lparr>pg_ops := pg_ops page @ [instr x (snd pos)]\<rparr>))
         else
           (let (hSpacing, vSpacing) = pdfStrides widthOfTextAtSize options width
            in for_loop (height + vSpacing) vSpacing
                 (\<lambda>y pg. for_loop (width + hSpacing) hSpacing
                    (\<lambda>x pg'. Some (pg'\<lparr>pg_ops := pg_ops pg' @ [instr x y]\<rparr>)) 0 pg)
                 0 page))"

text \<open>
  What an alignment means for a primitive that draws a text of width \<open>w\<close> from its start:
  the start at which the text is left-aligned, centred or right-aligned on the anchor \<open>x\<close>.
\<close>

fun alignedStart :: "CanvasTextAlign \<Rightarrow> real \<Rightarrow> real \<Rightarrow> real" where
  "alignedStart AlignLeft x w = x"
| "alignedStart AlignCenter x w = x - w / 2"
| "alignedStart AlignRight x w = x - w"

section \<open>Saved styles (SettingsPanel.tsx 56-59, 105-119)\<close>

record SavedStyle =
  name :: string
  options :: WatermarkOptions

text \<open>
  The part of the component's state that \<open>handleSaveStyle\<close> reads and writes. The local
  storage maps a key to the value stored under it; the value under \<open>watermarkStyles\<close> is the
  list of styles that \<open>JSON.stringify\<close> serialises. \<open>alerts\<close> collects the messages shown.
\<close>

record PanelState =
  styleName :: string
  savedStyles :: "SavedStyle list"
  localOptions :: WatermarkOptions
  localStorage :: "string \<rightharpoonup> SavedStyle list"
  alerts :: "string list"

text \<open>
  \<open>String.prototype.trim\<close> removes white space and line terminators at both ends. A
  character is read as a code unit below 256: tab, line feed, vertical tab, form feed,
  carriage return, space and no-break space.
\<close>

definition isWhiteSpace :: "char \<Rightarrow> bool" where
  "isWhiteSpace c = ((of_char c :: nat) \<in> {9, 10, 11, 12, 13, 32, 160})"

definition trim :: "string \<Rightarrow> string" where
  "trim s = rev (dropWhile isWhiteSpace (rev (dropWhile isWhiteSpace s)))"

definition handleSaveStyle :: "PanelState \<Rightarrow> PanelState" where
  "handleSaveStyle st =
     (if trim (styleName st) = []
      then st\<lparr>alerts := alerts st @ [''Please enter a name for the style.'']\<rparr>
      else if list_ex (\<lambda>s. name s = trim (styleName st)) (savedStyles st)
      then st\<lparr>alerts := alerts st @ [''A style with this name already exists.'']\<rparr>
      else
        (let newStyle = \<lparr>name = trim (styleName st), options = localOptions st\<rparr>;
             updatedStyles = savedStyles st @ [newStyle]
         in st\<lparr>savedStyles := updatedStyles,
               localStorage := (localStorage st)(''watermarkStyles'' \<mapsto> updatedStyles),
               styleName := []\<rparr>))"

section \<open>The render effect (PreviewWindow.tsx 128-198, Thumbnail.tsx 98-161)\<close>

text \<open>
  The effect and the callbacks it registers run one at a time on the event loop, so each
  is one transition of a state. A render request is named by a number. The state holds
  what the handlers share: the task held by \<open>renderTaskRef\<close>, the state of every render
  task created, the requests whose \<open>img.onload\<close> is registered and has not fired, the requests
  suspended at \<open>await pdfDoc.getPage\<close>, and the request whose output the visible canvas shows.
\<close>

datatype unit_kind = ImageUnit | PdfUnit

datatype task_status = Running | Cancelled | Finished

record CoordState =
  renderTaskRef :: "nat option"
  taskStatus :: "nat \<rightharpoonup> task_status"
  imgPending :: "nat list"
  pagePending :: "nat list"
  visible :: "nat option"

datatype event =
    EffectRun nat unit_kind
  | Cleanup
  | ImgLoaded nat
  | PageReady nat
  | RenderSettled nat

definition initialCoord :: CoordState where
  "initialCoord =
     \<lparr>renderTaskRef = None, taskStatus = Map.empty, imgPending = [], pagePending = [],
      visible = None\<rparr>"

text \<open>
  \<open>if (renderTaskRef.current) renderTaskRef.current.cancel()\<close>: a task that is still running
  becomes cancelled; one that has finished is not affected.
\<close>

definition cancelCurrent :: "CoordState \<Rightarrow> CoordState" where
  "cancelCurrent s =
     (case renderTaskRef s of
        None \<Rightarrow> s
      | Some t \<Rightarrow>
          (case taskStatus s t of
             Some Running \<Rightarrow> s\<lparr>taskStatus := (taskStatus s)(t \<mapsto> Cancelled)\<rparr>
           | _ \<Rightarrow> s))"

text \<open>
  \<^item> \<open>EffectRun r k\<close>: the effect body for request \<open>r\<close>. It cancels the task held by the ref;
    on the image branch it registers \<open>img.onload\<close> and sets \<open>img.src\<close>, on the PDF branch it
    starts the async function, which suspends at \<open>await pdfDoc.getPage\<close>.
  \<^item> \<open>Cleanup\<close>: the function the effect returns.
  \<^item> \<open>ImgLoaded r\<close>: \<open>img.onload\<close> of request \<open>r\<close>: draw, watermark, \<open>drawToVisibleCanvas\<close>.
  \<^item> \<open>PageReady r\<close>: \<open>getPage\<close> of request \<open>r\<close> resolves; \<open>renderTaskRef.current = page.render(...)\<close>.
  \<^item> \<open>RenderSettled r\<close>: the promise of the task of \<open>r\<close> settles. A running task resolves, and
    the lines after the \<open>await\<close> draw to the visible canvas; a cancelled one rejects with
    \<open>RenderingCancelledException\<close>, which the \<open>catch\<close> drops.
  The guards at the head of the effect are taken to pass, and the drawing before
  \<open>drawToVisibleCanvas\<close> to return.
\<close>

fun coordStep :: "event \<Rightarrow> CoordState \<Rightarrow> CoordState" where
  "coordStep (EffectRun r ImageUnit) s =
     (let s1 = cancelCurrent s in s1\<lparr>imgPending := imgPending s1 @ [r]\<rparr>)"
| "coordStep (EffectRun r PdfUnit) s =
     (let s1 = cancelCurrent s in s1\<lparr>pagePending := pagePending s1 @ [r]\<rparr>)"
| "coordStep Cleanup s = cancelCurrent s"
| "coordStep (ImgLoaded r) s =
     (if r \<in> set (imgPending s)
      then s\<lparr>imgPending := remove1 r (imgPending s), visible := Some r\<rparr>
      else s)"
| "coordStep (PageReady r) s =
     (if r \<in> set (pagePending s)
      then s\<lparr>pagePending := remove1 r (pagePending s), renderTaskRef := Some r,
             taskStatus := (taskStatus s)(r \<mapsto> Running)\<rparr>
      else s)"
| "coordStep (RenderSettled r) s =
     (case taskStatus s r of
        Some Running \<Rightarrow> s\<lparr>taskStatus := (taskStatus s)(r \<mapsto> Finished), visible := Some r\<rparr>
      | _ \<Rightarrow> s)"

definition runEvents :: "event list \<Rightarrow> CoordState \<Rightarrow> CoordState" where
  "runEvents es s = fold coordStep es s"

section \<open>Grid positions\<close>

text \<open>
  The grid positions in words: the values \<open>start\<close>, \<open>start + step\<close>, \<open>start + 2 * step\<close>, ...
  that lie below \<open>limit\<close>.
\<close>

definition ticks :: "real \<Rightarrow> real \<Rightarrow> real \<Rightarrow> real list" where
  "ticks start limit step =
     map (\<lambda>k. start + real k * step) [0 ..< nat \<lceil>(limit - start) / step\<rceil>]"

section \<open>Properties\<close>

lemma getWatermarkPosition_px:
  "px (getWatermarkPosition pos w h m) =
     (case pos of
        TopLeft \<Rightarrow> m | MiddleLeft \<Rightarrow> m | BottomLeft \<Rightarrow> m
      | TopCenter \<Rightarrow> w / 2 | MiddleCenter \<Rightarrow> w / 2 | BottomCenter \<Rightarrow> w / 2
      | TopRight \<Rightarrow> w - m | MiddleRight \<Rightarrow> w - m | BottomRight \<Rightarrow> w - m)"
  by (cases pos) (simp_all add: getWatermarkPosition_def positions_def)

lemma getWatermarkPosition_py:
  "py (getWatermarkPosition pos w h m) =
     (case pos of
        TopLeft \<Rightarrow> m | TopCenter \<Rightarrow> m | TopRight \<Rightarrow> m
      | MiddleLeft \<Rightarrow> h / 2 | MiddleCenter \<Rightarrow> h / 2 | MiddleRight \<Rightarrow> h / 2
      | BottomLeft \<Rightarrow> h - m | BottomCenter \<Rightarrow> h - m | BottomRight \<Rightarrow> h - m)"
  by (cases pos) (simp_all add: getWatermarkPosition_def positions_def)

subsection \<open>Anchor coordinates\<close>

text \<open>
  Claim C2, as stated: for each of the nine anchors, every positive surface size and every
  margin, the resolved coordinate satisfies \<open>margin \<le> x \<le> width - margin\<close> and
  \<open>margin \<le> y \<le> height - margin\<close>. The resolver does no clamping, and the margin of the
  detail preview is the unscaled font size: on a canvas 100 wide with font size 128 the
  top-left anchor has \<open>x = 128\<close>, above \<open>width - margin = - 28\<close>.
\<close>

theorem anchor_outside_margin_band:
  "\<not> (px (getWatermarkPosition TopLeft 100 80 128) \<le> 100 - 128)"
  by (simp add: getWatermarkPosition_px)

text \<open>
  Claim C2, amended: whenever twice the margin fits into the width and into the height, the
  resolved coordinate of every anchor lies within \<open>[margin, width - margin]\<close> and
  \<open>[margin, height - margin]\<close>.
\<close>

theorem anchor_within_margin_band:
  assumes "2 * m \<le> w" "2 * m \<le> h"
  shows "m \<le> px (getWatermarkPosition pos w h m) \<and> px (getWatermarkPosition pos w h m) \<le> w - m
       \<and> m \<le> py (getWatermarkPosition pos w h m) \<and> py (getWatermarkPosition pos w h m) \<le> h - m"
  using assms by (cases pos) (simp_all add: getWatermarkPosition_px getWatermarkPosition_py)

theorem anchor_within_margin_band_witness:
  "(2::real) * 48 \<le> 1000 \<and> (2::real) * 48 \<le> 800
   \<and> 48 \<le> px (getWatermarkPosition TopRight 1000 800 48)
   \<and> px (getWatermarkPosition TopRight 1000 800 48) \<le> 1000 - 48
   \<and> 48 \<le> py (getWatermarkPosition TopRight 1000 800 48)
   \<and> py (getWatermarkPosition TopRight 1000 800 48) \<le> 800 - 48"
  using anchor_within_margin_band [of 48 1000 800 TopRight] by simp

lemma getWatermarkPositionPdf_eq:
  "getWatermarkPositionPdf pos w h m =
     (case pos of
        TopLeft \<Rightarrow> (m, h - m) | TopCenter \<Rightarrow> (w / 2, h - m) | TopRight \<Rightarrow> (w - m, h - m)
      | MiddleLeft \<Rightarrow> (m, h / 2) | MiddleCenter \<Rightarrow> (w / 2, h / 2) | MiddleRight \<Rightarrow> (w - m, h / 2)
      | BottomLeft \<Rightarrow> (m, m) | BottomCenter \<Rightarrow> (w / 2, m) | BottomRight \<Rightarrow> (w - m, m))"
  by (cases pos) (simp_all add: getWatermarkPositionPdf_def positionsPdf_def)

text \<open>
  Claim C6: on a page surface the vertical coordinate is measured from the bottom edge.
  The top row resolves to \<open>pageHeight - margin\<close>, the middle row to \<open>pageHeight / 2\<close>, the
  bottom row to \<open>margin\<close>; this is the raster value mirrored (\<open>pageHeight - y\<close>), and the
  horizontal coordinate is the raster one.
\<close>

theorem pdf_anchor_inverts_vertical_axis:
  "snd (getWatermarkPositionPdf pos W H m) =
     (case pos of
        TopLeft \<Rightarrow> H - m | TopCenter \<Rightarrow> H - m | TopRight \<Rightarrow> H - m
      | MiddleLeft \<Rightarrow> H / 2 | MiddleCenter \<Rightarrow> H / 2 | MiddleRight \<Rightarrow> H / 2
      | BottomLeft \<Rightarrow> m | BottomCenter \<Rightarrow> m | BottomRight \<Rightarrow> m)
   \<and> snd (getWatermarkPositionPdf pos W H m) = H - py (getWatermarkPosition pos W H m)
   \<and> fst (getWatermarkPositionPdf pos W H m) = px (getWatermarkPosition pos W H m)"
  by (cases pos)
     (simp_all add: getWatermarkPositionPdf_eq getWatermarkPosition_def positions_def)

subsection \<open>Colour conversion\<close>

lemma hexPair_Some:
  "hexPair s = Some (g, r) \<Longrightarrow> \<exists>a b. s = a # b # r \<and> g = [a, b] \<and> isHexDigit a \<and> isHexDigit b"
  by (cases s rule: hexPair.cases) (auto split: if_splits)

lemma hexGroups_Some:
  assumes "hexGroups s = Some g"
  shows "sixHexDigits s"
proof -
  from assms obtain g1 s1 g2 s2 g3 where
    p1: "hexPair s = Some (g1, s1)" and p2: "hexPair s1 = Some (g2, s2)" and p3: "hexPair s2 = Some (g3, [])"
    by (auto simp: hexGroups_def split: option.splits if_splits)
  from hexPair_Some [OF p3] hexPair_Some [OF p2] hexPair_Some [OF p1]
  show ?thesis by (auto simp: sixHexDigits_def)
qed

lemma hexRegexExec_Some:
  assumes "hexRegexExec hex = Some g"
  shows "sixHexForm hex"
proof (cases hex)
  case Nil
  with assms show ?thesis by (simp add: hexRegexExec_def hexGroups_def)
next
  case (Cons c rest)
  with assms have "hexGroups hex = Some g \<or> (c = CHR ''#'' \<and> hexGroups rest = Some g)"
    by (auto simp: hexRegexExec_def split: if_splits option.splits)
  then show ?thesis
  proof
    assume "hexGroups hex = Some g"
    then have "sixHexDigits hex" by (rule hexGroups_Some)
    then show ?thesis by (simp add: sixHexForm_def)
  next
    assume "c = CHR ''#'' \<and> hexGroups rest = Some g"
    then have "c = CHR ''#''" and "sixHexDigits rest" by (auto dest: hexGroups_Some)
    with Cons show ?thesis by (simp add: sixHexForm_def)
  qed
qed

lemma hexGroups_sixHexDigits:
  assumes "sixHexDigits s"
  shows "hexGroups s \<noteq> None"
proof -
  from assms obtain a b c d e f where "s = [a, b, c, d, e, f]"
    by (auto simp: sixHexDigits_def length_Suc_conv eval_nat_numeral)
  with assms show ?thesis by (simp add: sixHexDigits_def hexGroups_def)
qed

lemma hexRegexExec_sixHexForm:
  assumes "sixHexForm hex"
  shows "hexRegexExec hex \<noteq> None"
proof -
  from assms consider "sixHexDigits hex" | ds where "hex = CHR ''#'' # ds" "sixHexDigits ds"
    by (auto simp: sixHexForm_def)
  then show ?thesis
  proof cases
    case 1
    then have g: "hexGroups hex \<noteq> None" by (rule hexGroups_sixHexDigits)
    show ?thesis
    proof (cases hex)
      case Nil
      with g show ?thesis by (simp add: hexRegexExec_def)
    next
      case (Cons c rest)
      with g show ?thesis
        by (cases "hexGroups rest") (auto simp: hexRegexExec_def)
    qed
  next
    case 2
    then have "hexGroups ds \<noteq> None" by (simp add: hexGroups_sixHexDigits)
    with 2 show ?thesis by (auto simp: hexRegexExec_def)
  qed
qed

text \<open>
  Claim C10: a colour string that is not of the form of six hexadecimal digits with an
  optional leading \<open>#\<close> is not an error: for every opacity the helper returns
  \<open>rgba(0, 0, 0, <opacity>)\<close>.
\<close>

theorem hexToRgba_fallback:
  assumes "\<not> sixHexForm hex"
  shows "hexToRgba numToString hex opac = ''rgba(0, 0, 0, '' @ numToString opac @ '')''"
proof -
  from assms have "hexRegexExec hex = None"
    using hexRegexExec_Some by (cases "hexRegexExec hex") auto
  then show ?thesis by (simp add: hexToRgba_def)
qed

theorem hexToRgba_fallback_witness:
  "\<not> sixHexForm ''red'' \<and> hexToRgba (\<lambda>_. ''0.5'') ''red'' (1 / 2) = ''rgba(0, 0, 0, 0.5)''"
  using hexToRgba_fallback [of "''red''" "\<lambda>_. ''0.5''" "1 / 2"]
  by (simp add: sixHexForm_def sixHexDigits_def)

subsection \<open>The loop\<close>

lemma for_loop_diverges_aux:
  "for_loop limit step body i s = Some y \<Longrightarrow> \<not> (step \<le> 0 \<and> i < limit)"
proof (rule for_loop.raw_induct
         [where P = "\<lambda>limit step body i s y. \<not> (step \<le> 0 \<and> i < limit)"])
  fix f :: "real \<Rightarrow> real \<Rightarrow> (real \<Rightarrow> 'a \<Rightarrow> 'a option) \<Rightarrow> real \<Rightarrow> 'a \<Rightarrow> 'a option"
  fix limit step :: real and body :: "real \<Rightarrow> 'a \<Rightarrow> 'a option" and i :: real and s y :: 'a
  assume IH: "\<And>limit step body i s y. f limit step body i s = Some y \<Longrightarrow> \<not> (step \<le> 0 \<and> i < limit)"
  assume unfolded:
    "(if i < limit then Option.bind (body i s) (f limit step body (i + step)) else Some s) = Some y"
  show "\<not> (step \<le> 0 \<and> i < limit)"
  proof
    assume a: "step \<le> 0 \<and> i < limit"
    with unfolded obtain s' where "f limit step body (i + step) s' = Some y"
      by (auto simp: bind_eq_Some_conv)
    from IH [OF this] a show False by simp
  qed
qed

lemma for_loop_diverges:
  assumes "step \<le> 0" "i < limit"
  shows "for_loop limit step body i s = None"
  using for_loop_diverges_aux [of limit step body i s] assms
  by (cases "for_loop limit step body i s") auto

lemma ticks_done: "0 < step \<Longrightarrow> \<not> i < limit \<Longrightarrow> ticks i limit step = []"
  by (simp add: ticks_def divide_le_0_iff)

lemma ceiling_shift:
  assumes "0 < (step::real)"
  shows "\<lceil>(limit - (i + step)) / step\<rceil> = \<lceil>(limit - i) / step\<rceil> - 1"
proof -
  have "(limit - (i + step)) / step = (limit - i) / step - 1"
    using assms by (simp add: field_simps)
  then show ?thesis by simp
qed

lemma ticks_step:
  assumes "0 < step" "i < limit"
  shows "ticks i limit step = i # ticks (i + step) limit step"
proof -
  let ?c = "\<lceil>(limit - i) / step\<rceil>"
  have pos: "0 < ?c" using assms by simp
  then have n: "nat ?c = Suc (nat (?c - 1))" by linarith
  have "[0 ..< Suc (nat (?c - 1))] = 0 # map Suc [0 ..< nat (?c - 1)]"
    by (simp only: upt_conv_Cons [OF zero_less_Suc] map_Suc_upt)
  then have "ticks i limit step = i # map (\<lambda>k. i + real (Suc k) * step) [0 ..< nat (?c - 1)]"
    unfolding ticks_def n by (simp add: comp_def del: upt_Suc)
  also have "map (\<lambda>k. i + real (Suc k) * step) [0 ..< nat (?c - 1)] = ticks (i + step) limit step"
    unfolding ticks_def ceiling_shift [OF assms(1)] by (simp add: algebra_simps)
  finally show ?thesis .
qed

lemma for_loop_total:
  assumes step: "0 < step" and body: "\<And>j t. body j t = Some (f j t)"
  shows "for_loop limit step body i s = Some (fold f (ticks i limit step) s)"
proof (induction n \<equiv> "nat \<lceil>(limit - i) / step\<rceil>" arbitrary: i s)
  case 0
  then have "\<lceil>(limit - i) / step\<rceil> \<le> 0" by simp
  then have "(limit - i) / step \<le> 0" by simp
  then have ge: "\<not> i < limit" using step by (simp add: divide_le_0_iff)
  then show ?case using step by (subst for_loop.simps) (simp add: ticks_done)
next
  case (Suc n)
  have lt: "i < limit"
  proof (rule ccontr)
    assume "\<not> i < limit"
    then have "(limit - i) / step \<le> 0" using step by (simp add: divide_le_0_iff)
    then have "\<lceil>(limit - i) / step\<rceil> \<le> 0" by simp
    with Suc(2) show False by simp
  qed
  have "n = nat \<lceil>(limit - (i + step)) / step\<rceil>"
    using Suc(2) by (simp add: ceiling_shift [OF step])
  from Suc(1) [OF this]
  have IH: "for_loop limit step body (i + step) t = Some (fold f (ticks (i + step) limit step) t)" for t .
  show ?case
    by (subst for_loop.simps) (simp add: lt body IH ticks_step [OF step lt])
qed

lemma fold_append_ops: "fold (\<lambda>x c. c @ [g x]) xs c = c @ map g xs"
  by (induction xs arbitrary: c) simp_all

lemma fold_append_rows: "fold (\<lambda>y c. c @ r y) ys c = c @ concat (map r ys)"
  by (induction ys arbitrary: c) simp_all

lemma tileFrame_grid:
  assumes "0 < hSpacing" "0 < vSpacing"
  shows "tileFrame ctx txt w h rad hSpacing vSpacing =
     Some (ctx @ [Translate (w / 2) (h / 2), Rotate rad, Translate (- w / 2) (- h / 2)]
           @ concat (map (\<lambda>y. map (\<lambda>x. FillText txt (x - w) (y - h)) (ticks 0 (w * 2) hSpacing))
                      (ticks 0 (h * 2) vSpacing))
           @ [Restore])"
proof -
  have inner: "for_loop (w * 2) hSpacing (\<lambda>x c'. Some (c' @ [FillText txt (x - w) (y - h)])) 0 c
      = Some (c @ map (\<lambda>x. FillText txt (x - w) (y - h)) (ticks 0 (w * 2) hSpacing))" for y c
    by (subst for_loop_total [OF assms(1), where f = "\<lambda>x c'. c' @ [FillText txt (x - w) (y - h)]"])
       (simp_all add: fold_append_ops)
  show ?thesis
    unfolding tileFrame_def Let_def
    by (subst for_loop_total [OF assms(2),
          where f = "\<lambda>y c. c @ map (\<lambda>x. FillText txt (x - w) (y - h)) (ticks 0 (w * 2) hSpacing)"])
       (simp_all add: inner fold_append_rows)
qed

lemma nested_loop_total:
  assumes "0 < hS" "0 < vS"
  shows "for_loop lv vS (\<lambda>y c. for_loop lh hS (\<lambda>x c'. Some (c' @ g y x)) 0 c) 0 c0
     = Some (c0 @ concat (map (\<lambda>y. concat (map (g y) (ticks 0 lh hS))) (ticks 0 lv vS)))"
proof -
  have inner: "for_loop lh hS (\<lambda>x c'. Some (c' @ g y x)) 0 c
      = Some (c @ concat (map (g y) (ticks 0 lh hS)))" for y c
    by (subst for_loop_total [OF assms(1), where f = "\<lambda>x c'. c' @ g y x"])
       (simp_all add: fold_append_rows)
  show ?thesis
    by (subst for_loop_total [OF assms(2),
          where f = "\<lambda>y c. c @ concat (map (g y) (ticks 0 lh hS))"])
       (simp_all add: inner fold_append_rows)
qed

subsection \<open>Tiling on a canvas\<close>


lemma tileFrame_diverges_col:
  assumes "hSpacing \<le> 0" "0 < w" "0 < h"
  shows "tileFrame ctx txt w h rad hSpacing vSpacing = None"
proof -
  have "for_loop (h * 2) vSpacing
          (\<lambda>y c. for_loop (w * 2) hSpacing
             (\<lambda>x c'. Some (c' @ [FillText txt (x - w) (y - h)])) 0 c) 0 c0 = None" for c0
    using assms by (subst for_loop.simps) (simp add: for_loop_diverges)
  then show ?thesis by (simp add: tileFrame_def)
qed

lemma drawWatermarkOnCanvas_repeating:
  assumes "mode opts = Repeating" "canvasStrides measureText opts = (hS, vS)"
  shows "drawWatermarkOnCanvas numToString measureText ctx w h opts =
     tileFrame (ctx @ [SetFillStyle (hexToRgba numToString (color opts) (opacity opts)),
                       SetFont (fontSize opts), Save, SetTextAlign AlignCenter,
                       SetTextBaseline BaselineMiddle])
       (wtext opts) w h (- angle opts * pi / 180) hS vS"
  using assms by (simp add: drawWatermarkOnCanvas_def Let_def)

lemma drawWatermarkToCanvas_repeating:
  assumes "mode opts = Repeating" "thumbnailStrides measureText opts txt = (hS, vS)"
  shows "drawWatermarkToCanvas numToString measureText ctx w h opts txt =
     tileFrame (ctx @ [SetFillStyle (hexToRgba numToString (color opts) (opacity opts)),
                       SetFont (max 8 (fontSize opts * (1 / 4))), Save, SetTextAlign AlignCenter,
                       SetTextBaseline BaselineMiddle])
       txt w h (- angle opts * pi / 180) hS vS"
  using assms by (simp add: drawWatermarkToCanvas_def thumbnailOptions_def Let_def)

text \<open>
  With positive strides the export and the thumbnail rotate the frame once about the centre
  of the canvas and draw at \<open>(x - width, y - height)\<close> for \<open>y\<close> from 0 below twice the height
  and \<open>x\<close> from 0 below twice the width.
\<close>

lemma export_tiling_whole_frame:
  assumes "mode opts = Repeating" "canvasStrides measureText opts = (hS, vS)" "0 < hS" "0 < vS"
  shows "drawWatermarkOnCanvas numToString measureText ctx w h opts =
     Some (ctx @ [SetFillStyle (hexToRgba numToString (color opts) (opacity opts)),
                  SetFont (fontSize opts), Save, SetTextAlign AlignCenter,
                  SetTextBaseline BaselineMiddle,
                  Translate (w / 2) (h / 2), Rotate (- angle opts * pi / 180),
                  Translate (- w / 2) (- h / 2)]
           @ concat (map (\<lambda>y. map (\<lambda>x. FillText (wtext opts) (x - w) (y - h)) (ticks 0 (w * 2) hS))
                      (ticks 0 (h * 2) vS))
           @ [Restore])"
  by (simp add: drawWatermarkOnCanvas_repeating [OF assms(1,2)] tileFrame_grid [OF assms(3,4)])

lemma thumbnail_tiling_whole_frame:
  assumes "mode opts = Repeating" "thumbnailStrides measureText opts txt = (hS, vS)"
    "0 < hS" "0 < vS"
  shows "drawWatermarkToCanvas numToString measureText ctx w h opts txt =
     Some (ctx @ [SetFillStyle (hexToRgba numToString (color opts) (opacity opts)),
                  SetFont (max 8 (fontSize opts * (1 / 4))), Save, SetTextAlign AlignCenter,
                  SetTextBaseline BaselineMiddle,
                  Translate (w / 2) (h / 2), Rotate (- angle opts * pi / 180),
                  Translate (- w / 2) (- h / 2)]
           @ concat (map (\<lambda>y. map (\<lambda>x. FillText txt (x - w) (y - h)) (ticks 0 (w * 2) hS))
                      (ticks 0 (h * 2) vS))
           @ [Restore])"
  by (simp add: drawWatermarkToCanvas_repeating [OF assms(1,2)] tileFrame_grid [OF assms(3,4)])

text \<open>
  The detail preview runs another loop: \<open>y\<close> from 0 below \<open>height + vSpacing\<close>, \<open>x\<close> from 0
  below \<open>width + hSpacing\<close>, no offset, and every instance translated to its origin and
  rotated there.
\<close>

lemma preview_tiling_per_instance:
  assumes "mode opts = Repeating" "previewStrides measureText opts = (hS, vS)" "0 < hS" "0 < vS"
  shows "drawWatermark numToString measureText ctx w h opts =
     Some (ctx @ [SetFillStyle (hexToRgba numToString (color opts) (opacity opts)),
                  SetFont (fontSize opts), Save, SetTextAlign AlignCenter,
                  SetTextBaseline BaselineMiddle]
           @ concat (map (\<lambda>y. concat (map (\<lambda>x. [Save, Translate x y, Rotate (- angle opts * pi / 180),
                                                 FillText (wtext opts) 0 0, Restore])
                                       (ticks 0 (w + hS) hS)))
                      (ticks 0 (h + vS) vS))
           @ [Restore])"
  using assms(1,2)
  by (simp add: drawWatermark_def Let_def nested_loop_total [OF assms(3,4)])

lemma preview_diverges:
  assumes "mode opts = Repeating" "previewStrides measureText opts = (hS, vS)"
    and "(vS \<le> 0 \<and> 0 < h + vS) \<or> (hS \<le> 0 \<and> 0 < w + hS \<and> 0 < h + vS)"
  shows "drawWatermark numToString measureText ctx w h opts = None"
proof -
  let ?inst = "\<lambda>y x. [Save, Translate x y, Rotate (- angle opts * pi / 180),
                      FillText (wtext opts) 0 0, Restore]"
  have "for_loop (h + vS) vS (\<lambda>y c. for_loop (w + hS) hS (\<lambda>x c'. Some (c' @ ?inst y x)) 0 c) 0 c = None" for c
    using assms(3)
  proof
    assume "vS \<le> 0 \<and> 0 < h + vS"
    then show ?thesis by (simp add: for_loop_diverges)
  next
    assume "hS \<le> 0 \<and> 0 < w + hS \<and> 0 < h + vS"
    then show ?thesis by (subst for_loop.simps) (simp add: for_loop_diverges)
  qed
  then show ?thesis using assms(1,2) by (simp add: drawWatermark_def Let_def)
qed

lemma export_returns:
  assumes "mode opts = Repeating" "0 < fst (canvasStrides measureText opts)"
    "0 < snd (canvasStrides measureText opts)"
  shows "\<exists>t. drawWatermarkOnCanvas numToString measureText ctx w h opts = Some t"
  using export_tiling_whole_frame [OF assms(1) prod.collapse [symmetric] assms(2,3)] by blast

lemma preview_returns:
  assumes "mode opts = Repeating" "0 < fst (previewStrides measureText opts)"
    "0 < snd (previewStrides measureText opts)"
  shows "\<exists>t. drawWatermark numToString measureText ctx w h opts = Some t"
  using preview_tiling_per_instance [OF assms(1) prod.collapse [symmetric] assms(2,3)] by blast

lemma boxWidth_zero_angle [simp]: "boxWidth tw th 0 = tw" "boxHeight tw th 0 = th"
  by (simp_all add: boxWidth_def boxHeight_def)

lemma box_quarter_turn: "boxWidth tw th (- (pi / 2)) = th" "boxHeight tw th (- (pi / 2)) = tw"
  "boxWidth tw th (pi / 2) = th" "boxHeight tw th (pi / 2) = tw"
  by (simp_all add: boxWidth_def boxHeight_def)


lemma hexToRgba_white: "hexToRgba (\<lambda>_. ''0.5'') ''#ffffff'' x = ''rgba(255, 255, 255, 0.5)''"
  by (simp add: hexToRgba_def hexRegexExec_def hexGroups_def isHexDigit_def parseIntHex_def hexValue_def showNat.simps digitChar_def)

lemma ticks_ex: "ticks 0 200 100 = [0, 100]" "ticks 0 200 120 = [0, 120]"
  by (simp_all add: ticks_def upt_rec)

lemma export_at_quarter_turn:
  "drawWatermarkOnCanvas (\<lambda>_. ''0.5'') (\<lambda>_ _. 60) [] 100 100
     \<lparr>wtext = ''W'', fontSize = 40, color = ''#ffffff'', opacity = 1 / 2, angle = 90,
      mode = Repeating, position = MiddleCenter, rowSpacing = 60, colSpacing = 60\<rparr>
   = Some [SetFillStyle ''rgba(255, 255, 255, 0.5)'', SetFont 40,
           Save, SetTextAlign AlignCenter, SetTextBaseline BaselineMiddle,
           Translate 50 50, Rotate (- (pi / 2)), Translate (- 50) (- 50),
           FillText ''W'' (- 100) (- 100), FillText ''W'' 0 (- 100),
           FillText ''W'' (- 100) 20, FillText ''W'' 0 20,
           Restore]"
proof -
  let ?o = "\<lparr>wtext = ''W'', fontSize = 40, color = ''#ffffff'', opacity = 1 / 2, angle = 90,
      mode = Repeating, position = MiddleCenter, rowSpacing = 60, colSpacing = 60\<rparr>"
  have cs: "canvasStrides (\<lambda>_ _. 60) ?o = (100, 120)"
    by (simp add: canvasStrides_def box_quarter_turn)
  show ?thesis
    by (subst export_tiling_whole_frame [OF _ cs]) (simp_all add: hexToRgba_white ticks_ex)
qed

text \<open>
  Claim C1: every repeating render onto a raster surface generates the origins for \<open>y\<close>
  from 0 to twice the height and \<open>x\<close> from 0 to twice the width, offset by
  \<open>(- width, - height)\<close>, under one rotation of the whole frame about the centre. The export
  and the thumbnail do (\<open>export_tiling_whole_frame\<close>, \<open>thumbnail_tiling_whole_frame\<close>); the
  detail preview does not. On a canvas of 100 by 100 with a text 60 wide, font size 40,
  spacing 60 and angle 90 the preview draws four instances at \<open>(0, 0)\<close>, \<open>(120, 0)\<close>,
  \<open>(0, 100)\<close>, \<open>(120, 100)\<close>, each rotated about its own origin, where the export of the same
  options rotates the frame once and draws at \<open>(- 100, - 100)\<close>, \<open>(0, - 100)\<close>, \<open>(- 100, 20)\<close>,
  \<open>(0, 20)\<close>.
\<close>

theorem preview_tiling_rotates_each_instance:
  "drawWatermark (\<lambda>_. ''0.5'') (\<lambda>_ _. 60) [] 100 100
     \<lparr>wtext = ''W'', fontSize = 40, color = ''#ffffff'', opacity = 1 / 2, angle = 90,
      mode = Repeating, position = MiddleCenter, rowSpacing = 60, colSpacing = 60\<rparr>
   = Some [SetFillStyle ''rgba(255, 255, 255, 0.5)'', SetFont 40,
           Save, SetTextAlign AlignCenter, SetTextBaseline BaselineMiddle,
           Save, Translate 0 0, Rotate (- (pi / 2)), FillText ''W'' 0 0, Restore,
           Save, Translate 120 0, Rotate (- (pi / 2)), FillText ''W'' 0 0, Restore,
           Save, Translate 0 100, Rotate (- (pi / 2)), FillText ''W'' 0 0, Restore,
           Save, Translate 120 100, Rotate (- (pi / 2)), FillText ''W'' 0 0, Restore,
           Restore]
   \<and> drawWatermarkOnCanvas (\<lambda>_. ''0.5'') (\<lambda>_ _. 60) [] 100 100
     \<lparr>wtext = ''W'', fontSize = 40, color = ''#ffffff'', opacity = 1 / 2, angle = 90,
      mode = Repeating, position = MiddleCenter, rowSpacing = 60, colSpacing = 60\<rparr>
   = Some [SetFillStyle ''rgba(255, 255, 255, 0.5)'', SetFont 40,
           Save, SetTextAlign AlignCenter, SetTextBaseline BaselineMiddle,
           Translate 50 50, Rotate (- (pi / 2)), Translate (- 50) (- 50),
           FillText ''W'' (- 100) (- 100), FillText ''W'' 0 (- 100),
           FillText ''W'' (- 100) 20, FillText ''W'' 0 20,
           Restore]"
  by (simp add: drawWatermark_def previewStrides_def hexToRgba_white for_loop.simps Let_def
        export_at_quarter_turn)

subsection \<open>Strides\<close>

lemma canvasStrides_at_zero:
  assumes "angle opts = 0"
  shows "canvasStrides measureText opts =
     (measureText (fontSize opts) (wtext opts) + colSpacing opts, fontSize opts + rowSpacing opts)"
  using assms by (simp add: canvasStrides_def Let_def)

lemma canvasStrides_at_quarter_turn:
  assumes "angle opts = 90"
  shows "canvasStrides measureText opts =
     (fontSize opts + colSpacing opts, measureText (fontSize opts) (wtext opts) + rowSpacing opts)"
  using assms by (simp add: canvasStrides_def Let_def box_quarter_turn)

lemma thumbnailStrides_at_zero:
  assumes "angle opts = 0"
  shows "thumbnailStrides measureText opts txt =
     (measureText (max 8 (fontSize opts * (1 / 4))) txt + colSpacing opts * (1 / 4),
      max 8 (fontSize opts * (1 / 4)) + rowSpacing opts * (1 / 4))"
  using assms by (simp add: thumbnailStrides_def thumbnailOptions_def Let_def)

lemma thumbnailStrides_at_quarter_turn:
  assumes "angle opts = 90"
  shows "thumbnailStrides measureText opts txt =
     (max 8 (fontSize opts * (1 / 4)) + colSpacing opts * (1 / 4),
      measureText (max 8 (fontSize opts * (1 / 4))) txt + rowSpacing opts * (1 / 4))"
  using assms by (simp add: thumbnailStrides_def thumbnailOptions_def Let_def box_quarter_turn)

lemma pdfStrides_at_zero:
  assumes "angle opts = 0"
  shows "pdfStrides widthOfTextAtSize opts width =
     (widthOfTextAtSize (wtext opts) (fontSize opts * (width / 1000)) + colSpacing opts,
      fontSize opts * (width / 1000) + rowSpacing opts)"
  using assms by (simp add: pdfStrides_def Let_def)

lemma previewStrides_any_angle:
  "previewStrides measureText opts =
     (measureText (fontSize opts) (wtext opts) + colSpacing opts, fontSize opts + rowSpacing opts)"
  by (simp add: previewStrides_def Let_def)

text \<open>
  Claim C5: in every repeating render the strides come from the rotated bounding box, so
  that at angle 0 they are \<open>textWidth + colSpacing\<close> and \<open>textHeight + rowSpacing\<close>, and at 90
  degrees the box is \<open>textHeight\<close> wide and \<open>textWidth\<close> high. The export, the thumbnail and
  the page export compute the box (\<open>canvasStrides_at_zero\<close>, \<open>canvasStrides_at_quarter_turn\<close>,
  \<open>box_quarter_turn\<close> and the lemmas beside them); the detail preview adds the spacing to the
  unrotated text size at every angle. With a text 60 wide, font size 40, spacing 60 and
  angle 90 its strides are \<open>(120, 100)\<close>, those of the export \<open>(100, 120)\<close>.
\<close>

theorem preview_strides_ignore_rotation:
  "previewStrides (\<lambda>_ _. 60)
     \<lparr>wtext = ''W'', fontSize = 40, color = ''#ffffff'', opacity = 1 / 2, angle = 90,
      mode = Repeating, position = MiddleCenter, rowSpacing = 60, colSpacing = 60\<rparr> = (120, 100)
   \<and> canvasStrides (\<lambda>_ _. 60)
     \<lparr>wtext = ''W'', fontSize = 40, color = ''#ffffff'', opacity = 1 / 2, angle = 90,
      mode = Repeating, position = MiddleCenter, rowSpacing = 60, colSpacing = 60\<rparr> = (100, 120)"
  by (simp add: previewStrides_def canvasStrides_def box_quarter_turn)

text \<open>
  Claim C3, as stated: a text that measures to width 0 gets a minimum footprint equal to the
  font size, so both strides are positive and the loop ends. Nothing is substituted: with
  the empty text, font size 48, angle 0 and no spacing the horizontal stride is 0, and
  neither the export nor the detail preview returns.
\<close>

theorem empty_text_zero_stride_never_returns:
  "canvasStrides (\<lambda>_ _. 0)
     \<lparr>wtext = [], fontSize = 48, color = ''#ffffff'', opacity = 1 / 2, angle = 0,
      mode = Repeating, position = MiddleCenter, rowSpacing = 0, colSpacing = 0\<rparr> = (0, 48)
   \<and> drawWatermarkOnCanvas (\<lambda>_. ''0.5'') (\<lambda>_ _. 0) [] 1000 800
     \<lparr>wtext = [], fontSize = 48, color = ''#ffffff'', opacity = 1 / 2, angle = 0,
      mode = Repeating, position = MiddleCenter, rowSpacing = 0, colSpacing = 0\<rparr> = None
   \<and> drawWatermark (\<lambda>_. ''0.5'') (\<lambda>_ _. 0) [] 1000 800
     \<lparr>wtext = [], fontSize = 48, color = ''#ffffff'', opacity = 1 / 2, angle = 0,
      mode = Repeating, position = MiddleCenter, rowSpacing = 0, colSpacing = 0\<rparr> = None"
proof -
  let ?o = "\<lparr>wtext = [], fontSize = 48, color = ''#ffffff'', opacity = 1 / 2, angle = 0,
      mode = Repeating, position = MiddleCenter, rowSpacing = 0, colSpacing = 0\<rparr>"
  have cs: "canvasStrides (\<lambda>_ _. 0) ?o = (0, 48)"
    by (simp add: canvasStrides_def)
  have ps: "previewStrides (\<lambda>_ _. 0) ?o = (0, 48)"
    by (simp add: previewStrides_def)
  have "drawWatermarkOnCanvas (\<lambda>_. ''0.5'') (\<lambda>_ _. 0) [] 1000 800 ?o = None"
    by (simp add: drawWatermarkOnCanvas_repeating [OF _ cs] tileFrame_diverges_col)
  moreover have "drawWatermark (\<lambda>_. ''0.5'') (\<lambda>_ _. 0) [] 1000 800 ?o = None"
    by (rule preview_diverges [OF _ ps]) simp_all
  ultimately show ?thesis using cs by simp
qed

text \<open>
  Claim C3, amended: for a text that measures to width 0 nothing is substituted, the strides
  are computed from the width 0 as measured: \<open>fontSize * |sin| + colSpacing\<close> and
  \<open>fontSize * |cos| + rowSpacing\<close> in the export, \<open>colSpacing\<close> and \<open>fontSize + rowSpacing\<close> in
  the detail preview. Whenever both strides of a path are at least 1, one pixel, its render
  returns. Nothing is said of strides below 1: a stride that is positive but far below the
  counter's precision no longer advances a counter held in double precision.
\<close>

theorem zero_width_text_strides:
  assumes "measureText (fontSize opts) (wtext opts) = 0" and "mode opts = Repeating"
  shows "canvasStrides measureText opts =
           (fontSize opts * \<bar>sin (- angle opts * pi / 180)\<bar> + colSpacing opts,
            fontSize opts * \<bar>cos (- angle opts * pi / 180)\<bar> + rowSpacing opts)
       \<and> previewStrides measureText opts = (colSpacing opts, fontSize opts + rowSpacing opts)
       \<and> (1 \<le> fst (canvasStrides measureText opts) \<and> 1 \<le> snd (canvasStrides measureText opts)
            \<longrightarrow> (\<exists>t. drawWatermarkOnCanvas numToString measureText ctx w h opts = Some t))
       \<and> (1 \<le> fst (previewStrides measureText opts) \<and> 1 \<le> snd (previewStrides measureText opts)
            \<longrightarrow> (\<exists>t. drawWatermark numToString measureText ctx w h opts = Some t))"
proof -
  have "canvasStrides measureText opts =
           (fontSize opts * \<bar>sin (- angle opts * pi / 180)\<bar> + colSpacing opts,
            fontSize opts * \<bar>cos (- angle opts * pi / 180)\<bar> + rowSpacing opts)"
    using assms(1) by (simp add: canvasStrides_def boxWidth_def boxHeight_def Let_def)
  moreover have "previewStrides measureText opts = (colSpacing opts, fontSize opts + rowSpacing opts)"
    using assms(1) by (simp add: previewStrides_def Let_def)
  moreover have "\<exists>t. drawWatermarkOnCanvas numToString measureText ctx w h opts = Some t"
    if "1 \<le> fst (canvasStrides measureText opts)" "1 \<le> snd (canvasStrides measureText opts)"
    using that by (intro export_returns [OF assms(2)]) linarith+
  moreover have "\<exists>t. drawWatermark numToString measureText ctx w h opts = Some t"
    if "1 \<le> fst (previewStrides measureText opts)" "1 \<le> snd (previewStrides measureText opts)"
    using that by (intro preview_returns [OF assms(2)]) linarith+
  ultimately show ?thesis by blast
qed

theorem zero_width_text_strides_witness:
  "(\<lambda>_ _. 0 :: real) (48 :: real) ([] :: string) = 0
   \<and> canvasStrides (\<lambda>_ _. 0)
        \<lparr>wtext = [], fontSize = 48, color = ''#ffffff'', opacity = 1 / 2, angle = 0,
         mode = Repeating, position = MiddleCenter, rowSpacing = 50, colSpacing = 50\<rparr> = (50, 98)
   \<and> previewStrides (\<lambda>_ _. 0)
        \<lparr>wtext = [], fontSize = 48, color = ''#ffffff'', opacity = 1 / 2, angle = 0,
         mode = Repeating, position = MiddleCenter, rowSpacing = 50, colSpacing = 50\<rparr> = (50, 98)
   \<and> (\<exists>t. drawWatermarkOnCanvas (\<lambda>_. ''0.5'') (\<lambda>_ _. 0) [] 1000 800
        \<lparr>wtext = [], fontSize = 48, color = ''#ffffff'', opacity = 1 / 2, angle = 0,
         mode = Repeating, position = MiddleCenter, rowSpacing = 50, colSpacing = 50\<rparr> = Some t)
   \<and> (\<exists>t. drawWatermark (\<lambda>_. ''0.5'') (\<lambda>_ _. 0) [] 1000 800
        \<lparr>wtext = [], fontSize = 48, color = ''#ffffff'', opacity = 1 / 2, angle = 0,
         mode = Repeating, position = MiddleCenter, rowSpacing = 50, colSpacing = 50\<rparr> = Some t)"
  using zero_width_text_strides [of "\<lambda>_ _. 0"
      "\<lparr>wtext = [], fontSize = 48, color = ''#ffffff'', opacity = 1 / 2, angle = 0,
         mode = Repeating, position = MiddleCenter, rowSpacing = 50, colSpacing = 50\<rparr>"
      "\<lambda>_. ''0.5''" "[]" 1000 800]
  by simp




subsection \<open>Page export\<close>

text \<open>
  The shift of the single-mode draw, by the alignment of the anchor: half the text width to
  the right for a left anchor, half the text width to the left for a centre and for a
  right anchor. A centre anchor is thereby centred.
\<close>

lemma pdfSingleX_by_alignment:
  "pdfSingleX widthOfTextAtSize opts width height =
     (let m = fontSize opts * (width / 1000);
          x = fst (getWatermarkPositionPdf (position opts) width height m);
          tw = widthOfTextAtSize (wtext opts) m
      in case textAlign (getWatermarkPosition (position opts) width height m) of
           AlignLeft \<Rightarrow> x + tw / 2
         | AlignCenter \<Rightarrow> x - tw / 2
         | AlignRight \<Rightarrow> x - tw / 2)"
  by (cases "position opts")
     (simp_all add: pdfSingleX_def Let_def getWatermarkPosition_def positions_def)

lemma pdfSingleX_centre_aligned:
  assumes "textAlign (getWatermarkPosition (position opts) width height
             (fontSize opts * (width / 1000))) = AlignCenter"
  shows "pdfSingleX widthOfTextAtSize opts width height =
     alignedStart AlignCenter
       (fst (getWatermarkPositionPdf (position opts) width height (fontSize opts * (width / 1000))))
       (widthOfTextAtSize (wtext opts) (fontSize opts * (width / 1000)))"
  unfolding pdfSingleX_by_alignment Let_def assms by simp

text \<open>
  Claim C7: in single mode the \<open>x\<close> handed to the page primitive is the anchor shifted by
  half the text width, so that the text, drawn from its start, sits as the alignment of
  the anchor says. For a centre anchor it does. For a right anchor the code subtracts half
  the width where right alignment needs the whole width: on a page 1000 wide with margin
  48 and a text 200 wide the anchor is 952, the text is drawn from 852 and ends at 1052,
  beyond the page; right-aligned it would start at 752.
\<close>

theorem pdf_single_right_anchor_overshoots:
  "watermarkPage (\<lambda>_ _. 200) (\<lambda>_. 255)
     \<lparr>wtext = ''CONFIDENTIAL'', fontSize = 48, color = ''#ffffff'', opacity = 1 / 2, angle = 0,
      mode = Single, position = TopRight, rowSpacing = 50, colSpacing = 50\<rparr>
     \<lparr>pg_width = 1000, pg_height = 800, pg_ops = []\<rparr>
   = Some \<lparr>pg_width = 1000, pg_height = 800,
           pg_ops = [\<lparr>dt_text = ''CONFIDENTIAL'', dt_x = 852, dt_y = 752, dt_size = 48,
                      dt_color = (1, 1, 1), dt_opacity = 1 / 2, dt_rotate = 0\<rparr>]\<rparr>
   \<and> alignedStart (textAlign (getWatermarkPosition TopRight 1000 800 48))
        (fst (getWatermarkPositionPdf TopRight 1000 800 48)) 200 = 752"
  by (simp add: watermarkPage_def pdfSingleX_def pdfColor_def getWatermarkPositionPdf_def
        positionsPdf_def getWatermarkPosition_def positions_def)

subsection \<open>Saved styles\<close>

text \<open>
  Claim C9: saving under a name that, trimmed, is already in the list leaves the list and
  the storage as they are; saving under a fresh name that is not empty appends exactly
  that entry and stores the extended list.
\<close>

theorem handleSaveStyle_rejects_duplicates:
  "(trim (styleName st) \<in> name ` set (savedStyles st) \<longrightarrow>
      savedStyles (handleSaveStyle st) = savedStyles st
      \<and> localStorage (handleSaveStyle st) = localStorage st)
   \<and> (trim (styleName st) \<noteq> [] \<and> trim (styleName st) \<notin> name ` set (savedStyles st) \<longrightarrow>
      savedStyles (handleSaveStyle st) =
        savedStyles st @ [\<lparr>name = trim (styleName st), options = localOptions st\<rparr>]
      \<and> localStorage (handleSaveStyle st) =
        (localStorage st)(''watermarkStyles'' \<mapsto>
           savedStyles st @ [\<lparr>name = trim (styleName st), options = localOptions st\<rparr>]))"
proof -
  have ex: "list_ex (\<lambda>s. name s = trim (styleName st)) (savedStyles st)
              \<longleftrightarrow> trim (styleName st) \<in> name ` set (savedStyles st)"
    by (force simp: list_ex_iff)
  show ?thesis
    by (simp add: handleSaveStyle_def ex Let_def)
qed

theorem handleSaveStyle_rejects_duplicates_witness:
  "(let o1 = \<lparr>wtext = ''Draft'', fontSize = 48, color = ''#ffffff'', opacity = 1 / 2, angle = 0,
              mode = Single, position = MiddleCenter, rowSpacing = 50, colSpacing = 50\<rparr>;
        old = [\<lparr>name = ''draft'', options = o1\<rparr>];
        dup = \<lparr>styleName = '' draft '', savedStyles = old, localOptions = o1,
               localStorage = [''watermarkStyles'' \<mapsto> old], alerts = []\<rparr>;
        fresh = dup\<lparr>styleName := '' final''\<rparr>
    in trim (styleName dup) \<in> name ` set (savedStyles dup)
       \<and> savedStyles (handleSaveStyle dup) = old
       \<and> localStorage (handleSaveStyle dup) = localStorage dup
       \<and> trim (styleName fresh) \<noteq> [] \<and> trim (styleName fresh) \<notin> name ` set (savedStyles fresh)
       \<and> savedStyles (handleSaveStyle fresh) = old @ [\<lparr>name = ''final'', options = o1\<rparr>]
       \<and> localStorage (handleSaveStyle fresh) ''watermarkStyles''
            = Some (old @ [\<lparr>name = ''final'', options = o1\<rparr>]))"
proof -
  define o1 where "o1 = \<lparr>wtext = ''Draft'', fontSize = 48, color = ''#ffffff'', opacity = 1 / 2, angle = 0,
              mode = Single, position = MiddleCenter, rowSpacing = 50, colSpacing = 50\<rparr>"
  define old where "old = [\<lparr>name = ''draft'', options = o1\<rparr>]"
  define dup where "dup = \<lparr>styleName = '' draft '', savedStyles = old, localOptions = o1,
               localStorage = [''watermarkStyles'' \<mapsto> old], alerts = []\<rparr>"
  define fresh where "fresh = dup\<lparr>styleName := '' final''\<rparr>"
  have t1: "trim (styleName dup) = ''draft''"
    by (simp add: dup_def trim_def isWhiteSpace_def)
  have t2: "trim (styleName fresh) = ''final''"
    by (simp add: fresh_def dup_def trim_def isWhiteSpace_def)
  have s1: "savedStyles dup = old" "savedStyles fresh = old" "localOptions fresh = o1"
    by (simp_all add: dup_def fresh_def)
  have n: "name ` set old = {''draft''}" by (simp add: old_def)
  from handleSaveStyle_rejects_duplicates [of dup] handleSaveStyle_rejects_duplicates [of fresh]
  have "trim (styleName dup) \<in> name ` set (savedStyles dup)
       \<and> savedStyles (handleSaveStyle dup) = old
       \<and> localStorage (handleSaveStyle dup) = localStorage dup
       \<and> trim (styleName fresh) \<noteq> [] \<and> trim (styleName fresh) \<notin> name ` set (savedStyles fresh)
       \<and> savedStyles (handleSaveStyle fresh) = old @ [\<lparr>name = ''final'', options = o1\<rparr>]
       \<and> localStorage (handleSaveStyle fresh) ''watermarkStyles''
            = Some (old @ [\<lparr>name = ''final'', options = o1\<rparr>])"
    by (simp add: t1 t2 s1 n)
  then show ?thesis
    unfolding Let_def o1_def [symmetric] old_def [symmetric] dup_def [symmetric] fresh_def [symmetric] .
qed

subsection \<open>Superseded renders\<close>

lemma cancelled_task_never_commits:
  assumes "renderTaskRef s = Some a" "taskStatus s a = Some Running"
  shows "visible (coordStep (RenderSettled a) (coordStep (EffectRun b k) s)) = visible s"
  using assms by (cases k) (simp_all add: cancelCurrent_def)

lemma stale_page_render_overwrites:
  "visible (runEvents [EffectRun 1 PdfUnit, Cleanup, EffectRun 2 PdfUnit,
                       PageReady 1, PageReady 2, RenderSettled 2, RenderSettled 1] initialCoord) = Some 1"
  by (simp add: runEvents_def initialCoord_def cancelCurrent_def)

text \<open>
  Claim C8: when request B is issued while request A of the same unit is in flight, only
  the output of B is ever on the visible canvas, on the image path and on the page path.
  The image path has no cancellation: \<open>img.onload\<close> of A draws to the visible canvas whenever
  it fires. When the image of B loads before that of A, the canvas ends with the output of
  A.
\<close>

theorem stale_image_render_overwrites:
  "visible (runEvents [EffectRun 1 ImageUnit, Cleanup, EffectRun 2 ImageUnit,
                       ImgLoaded 2, ImgLoaded 1] initialCoord) = Some 1"
  by (simp add: runEvents_def initialCoord_def cancelCurrent_def)

end
